theory Spec2Isabelle
  imports Complex_Main
begin

section \<open>The Bollinger-bands policy of bounty-2/policy.py\<close>

text \<open>
  A shallow embedding of the class \<open>BollingerBandsPolicy\<close>. The attributes of the
  instance are the fields of the record \<open>policy\<close>; every method takes the record and
  returns it updated next to its result.

  Numbers. A Python \<open>float\<close> that is a number is a \<open>real\<close> here, and \<open>nan\<close> is
  \<open>None\<close>: the type \<open>npfloat\<close> is \<open>real option\<close>. Rounding, overflow and the
  infinities of binary floating point are left out, and so is the 28-digit rounding of
  \<open>Decimal\<close>: a \<open>Decimal\<close> is a \<open>real\<close> too. The liquidity of a pool is a Python
  \<open>int\<close>. Every concrete input evaluated below uses small numbers on which the
  floating-point comparisons come out as the real ones do.
\<close>

subsection \<open>Data\<close>

type_synonym npfloat = "real option"

datatype error = IndexError | ValueError

text \<open>
  \<open>UniswapV3Observation\<close>, as far as \<open>predict\<close> reads it: the attribute \<open>pools\<close> and
  the methods \<open>pool_tokens(pool)\<close>, \<open>price(token, unit, pool)\<close> (already converted by
  \<open>float\<close>) and \<open>liquidity(pool)\<close>.
\<close>

record observation =
  obs_pools :: "string list"
  obs_pool_tokens :: "string \<Rightarrow> string \<times> string"
  obs_price :: "string \<Rightarrow> string \<Rightarrow> string \<Rightarrow> real"
  obs_liquidity :: "string \<Rightarrow> int"

text \<open>\<open>UniswapV3Trade(agent, pool, quantities)\<close>.\<close>

record trade =
  trade_agent :: string
  trade_pool :: string
  quantities :: "real \<times> real"

text \<open>
  The instance. \<open>agent\<close> is the name of the acting agent; what the agent holds is read
  at every step through \<open>self.agent.quantity\<close>, which \<open>predict\<close> takes as an argument.
  \<open>price_window\<close> is the content of the deque, whose \<open>maxlen\<close> is \<open>window\<close>.
\<close>

record policy =
  agent :: string
  pool :: string
  window :: nat
  std_dev_multiplier :: real
  corr_window :: int
  direction :: int
  price_window :: "real list"
  price_hist :: "real list"
  liquidity :: "int list"
  upper_band :: "npfloat list"
  lower_band :: "npfloat list"
  correlation_hist :: "npfloat list"

text \<open>The local variables of \<open>predict\<close> after one run of lines 77 to 89.\<close>

record locals =
  l_pool_tokens :: "string \<times> string"
  l_price :: real
  l_lower_band :: npfloat
  l_middle_band :: npfloat
  l_upper_band :: npfloat
  l_correlation :: npfloat

subsection \<open>Library functions\<close>

text \<open>
  \<open>deque.append\<close> on a deque with \<open>maxlen\<close>: the item goes to the right end and, when
  the deque is then longer than \<open>maxlen\<close>, the leftmost item is dropped.
\<close>

definition deque_append :: "nat \<Rightarrow> 'a list \<Rightarrow> 'a \<Rightarrow> 'a list" where
  "deque_append maxlen xs x =
     (let ys = xs @ [x] in if maxlen < length ys then tl ys else ys)"

text \<open>The slice \<open>xs[i:]\<close> of Python, for a positive, zero or negative \<open>i\<close>.\<close>

definition py_slice_from :: "'a list \<Rightarrow> int \<Rightarrow> 'a list" where
  "py_slice_from xs i =
     (if i < 0 then drop (nat (int (length xs) + i)) xs else drop (nat i) xs)"

text \<open>Arithmetic and comparison of floats: \<open>nan\<close> propagates and compares false.\<close>

definition float_add :: "npfloat \<Rightarrow> npfloat \<Rightarrow> npfloat" where
  "float_add a b = (case a of None \<Rightarrow> None | Some x \<Rightarrow> (case b of None \<Rightarrow> None | Some y \<Rightarrow> Some (x + y)))"

definition float_sub :: "npfloat \<Rightarrow> npfloat \<Rightarrow> npfloat" where
  "float_sub a b = (case a of None \<Rightarrow> None | Some x \<Rightarrow> (case b of None \<Rightarrow> None | Some y \<Rightarrow> Some (x - y)))"

definition float_mul :: "npfloat \<Rightarrow> npfloat \<Rightarrow> npfloat" where
  "float_mul a b = (case a of None \<Rightarrow> None | Some x \<Rightarrow> (case b of None \<Rightarrow> None | Some y \<Rightarrow> Some (x * y)))"

definition float_lt :: "npfloat \<Rightarrow> npfloat \<Rightarrow> bool" where
  "float_lt a b = (case a of None \<Rightarrow> False | Some x \<Rightarrow> (case b of None \<Rightarrow> False | Some y \<Rightarrow> x < y))"

text \<open>\<open>np.mean\<close> and \<open>np.std\<close> (population form, \<open>ddof = 0\<close>); \<open>nan\<close> on no data.\<close>

definition np_mean :: "real list \<Rightarrow> npfloat" where
  "np_mean xs = (if xs = [] then None else Some (sum_list xs / real (length xs)))"

definition np_std :: "real list \<Rightarrow> npfloat" where
  "np_std xs =
     (case np_mean xs of
        None \<Rightarrow> None
      | Some m \<Rightarrow> Some (sqrt (sum_list (map (\<lambda>x. \<bar>x - m\<bar>\<^sup>2) xs) / real (length xs))))"

text \<open>
  \<open>np.corrcoef(x, y)[0, 1]\<close> for two sequences of one length. \<open>np.cov\<close> divides the
  sums of products of deviations by \<open>N - 1\<close>; \<open>corrcoef\<close> divides the covariance by
  the square roots of the two variances, one after the other, and clips the quotient to
  \<open>[-1, 1]\<close>. With fewer than two elements, or a variance of zero, a \<open>0 / 0\<close> makes
  the entry \<open>nan\<close>.
\<close>

definition np_cov :: "real list \<Rightarrow> real list \<Rightarrow> npfloat" where
  "np_cov xs ys =
     (if length xs \<le> 1 then None
      else Some (sum_list (map2 (\<lambda>x y. (x - sum_list xs / real (length xs)) *
                                        (y - sum_list ys / real (length ys))) xs ys)
                 / (real (length xs) - 1)))"

definition np_corrcoef :: "real list \<Rightarrow> real list \<Rightarrow> npfloat" where
  "np_corrcoef xs ys =
     (case np_cov xs ys of
        None \<Rightarrow> None
      | Some c \<Rightarrow>
         (case np_cov xs xs of
            None \<Rightarrow> None
          | Some vx \<Rightarrow>
             (case np_cov ys ys of
                None \<Rightarrow> None
              | Some vy \<Rightarrow>
                 if sqrt vx = 0 \<or> sqrt vy = 0 then None
                 else Some (max (- 1) (min 1 (c / sqrt vx / sqrt vy))))))"

subsection \<open>The methods\<close>

text \<open>
  \<open>__init__\<close>. \<open>deque(maxlen=window)\<close> raises \<open>ValueError\<close> on a negative \<open>window\<close>,
  so the window of an instance is a natural number.
\<close>

definition init :: "string \<Rightarrow> string \<Rightarrow> int \<Rightarrow> real \<Rightarrow> int \<Rightarrow> int \<Rightarrow> error + policy" where
  "init a p w m cw d =
     (if w < 0 then Inl ValueError
      else Inr \<lparr>agent = a, pool = p, window = nat w, std_dev_multiplier = m,
                corr_window = cw, direction = d, price_window = [], price_hist = [],
                liquidity = [], upper_band = [], lower_band = [], correlation_hist = []\<rparr>)"

definition calculate_sma :: "policy \<Rightarrow> npfloat" where
  "calculate_sma s = np_mean (price_window s)"

definition calculate_bollinger_bands :: "policy \<Rightarrow> (npfloat \<times> npfloat \<times> npfloat) \<times> policy" where
  "calculate_bollinger_bands s =
     (if length (price_window s) < window s then ((Some 0, Some 0, Some 0), s)
      else
        let middle_band = calculate_sma s;
            std_dev = np_std (price_window s);
            upper = float_add middle_band (float_mul std_dev (Some (std_dev_multiplier s)));
            lower = float_sub middle_band (float_mul std_dev (Some (std_dev_multiplier s)))
        in ((lower, middle_band, upper),
            s\<lparr>upper_band := upper_band s @ [upper], lower_band := lower_band s @ [lower]\<rparr>))"

definition calculate_correlation :: "policy \<Rightarrow> npfloat \<times> policy" where
  "calculate_correlation s =
     (if corr_window s \<le> int (length (price_hist s)) \<and> corr_window s \<le> int (length (liquidity s))
      then
        let prices = py_slice_from (price_hist s) (- corr_window s);
            liq = map real_of_int (py_slice_from (liquidity s) (- corr_window s))
        in if length prices = length liq
           then let corr = np_corrcoef prices liq
                in (corr, s\<lparr>correlation_hist := correlation_hist s @ [corr]\<rparr>)
           else (Some 0, s)
      else (Some 0, s))"

text \<open>
  Lines 77 to 89 of \<open>predict\<close>, which lines 91 to 103 repeat word for word: read the
  first pool and the tokens of the configured pool, append the price and the liquidity,
  compute the bands and the correlation. \<open>obs.pools[0]\<close> raises \<open>IndexError\<close> on an
  empty list. The last component is the argument of \<open>obs.add_signal\<close>.
\<close>

definition observe :: "policy \<Rightarrow> observation \<Rightarrow> error + (locals \<times> policy \<times> (string \<times> npfloat))" where
  "observe s obs =
     (case obs_pools obs of
        [] \<Rightarrow> Inl IndexError
      | pool0 # _ \<Rightarrow>
         let pool_tokens = obs_pool_tokens obs (pool s);
             price = obs_price obs (fst pool_tokens) (snd pool_tokens) (pool s);
             s1 = s\<lparr>price_window := deque_append (window s) (price_window s) price\<rparr>;
             s2 = s1\<lparr>price_hist := price_hist s1 @ [price]\<rparr>;
             s3 = s2\<lparr>liquidity := liquidity s2 @ [obs_liquidity obs pool0]\<rparr>;
             (bands, s4) = calculate_bollinger_bands s3;
             (correlation, s5) = calculate_correlation s4
         in Inr (\<lparr>l_pool_tokens = pool_tokens, l_price = price,
                   l_lower_band = fst bands, l_middle_band = fst (snd bands),
                   l_upper_band = snd (snd bands), l_correlation = correlation\<rparr>,
                 s5, (''Correlation'', correlation)))"

text \<open>
  Lines 105 to 133: the warm-up gate and the two rules, on the local variables that the
  second run of the block left. \<open>quantity\<close> is \<open>self.agent.quantity\<close>.
\<close>

definition decide :: "policy \<Rightarrow> (string \<Rightarrow> real) \<Rightarrow> locals \<Rightarrow> trade list" where
  "decide s quantity l =
     (if length (price_window s) < window s then []
      else
        (if 0 \<le> direction s \<and> float_lt (Some (l_price l)) (l_lower_band l)
              \<and> float_lt (l_correlation l) (Some (- (1 / 2)))
         then [\<lparr>trade_agent = agent s, trade_pool = pool s,
                 quantities = (0, quantity (snd (l_pool_tokens l)) * (3 / 10))\<rparr>]
         else [])
        @
        (if direction s \<le> 0 \<and> float_lt (l_upper_band l) (Some (l_price l))
              \<and> float_lt (l_correlation l) (Some (- (1 / 2)))
         then [\<lparr>trade_agent = agent s, trade_pool = pool s,
                 quantities = (quantity (fst (l_pool_tokens l)) * (3 / 10), 0)\<rparr>]
         else []))"

text \<open>
  \<open>predict\<close>: the block twice, then the decision. The result is the list of actions,
  the instance after the call and the calls of \<open>obs.add_signal\<close> in order.
\<close>

definition predict ::
  "policy \<Rightarrow> (string \<Rightarrow> real) \<Rightarrow> observation \<Rightarrow> error + (trade list \<times> policy \<times> (string \<times> npfloat) list)" where
  "predict s quantity obs =
     (case observe s obs of
        Inl e \<Rightarrow> Inl e
      | Inr (l1, s1, sig1) \<Rightarrow>
         (case observe s1 obs of
            Inl e \<Rightarrow> Inl e
          | Inr (l2, s2, sig2) \<Rightarrow> Inr (decide s2 quantity l2, s2, [sig1, sig2])))"

text \<open>
  The runner calls \<open>predict\<close> once per step, in order, each time with the holdings of
  the agent and the observation of that step. An exception ends the run.
\<close>

fun predict_seq ::
  "policy \<Rightarrow> ((string \<Rightarrow> real) \<times> observation) list \<Rightarrow> error + (trade list list \<times> policy)" where
  "predict_seq s [] = Inr ([], s)"
| "predict_seq s ((q, obs) # rest) =
     (case predict s q obs of
        Inl e \<Rightarrow> Inl e
      | Inr (acts, s1, sigs) \<Rightarrow>
         (case predict_seq s1 rest of
            Inl e \<Rightarrow> Inl e
          | Inr (outs, s2) \<Rightarrow> Inr (acts # outs, s2)))"

subsection \<open>The words of the specification\<close>







subsection \<open>Concrete inputs\<close>

text \<open>
  An observation of the single pool of \<open>run.py\<close> with a given price and liquidity, an
  observation of two pools whose first pool is not the configured one, and the
  portfolio that \<open>run.py\<close> gives its agents.
\<close>

definition demo_obs :: "real \<Rightarrow> int \<Rightarrow> observation" where
  "demo_obs p l = \<lparr>obs_pools = [''USDC/WETH-0.05''],
      obs_pool_tokens = (\<lambda>_. (''USDC'', ''WETH'')),
      obs_price = (\<lambda>_ _ _. p), obs_liquidity = (\<lambda>_. l)\<rparr>"

definition demo_obs_two_pools :: observation where
  "demo_obs_two_pools = \<lparr>obs_pools = [''WBTC/WETH-0.3'', ''USDC/WETH-0.05''],
      obs_pool_tokens = (\<lambda>p. if p = ''USDC/WETH-0.05'' then (''USDC'', ''WETH'') else (''WBTC'', ''WETH'')),
      obs_price = (\<lambda>_ _ p. if p = ''USDC/WETH-0.05'' then 3 else 7),
      obs_liquidity = (\<lambda>p. if p = ''USDC/WETH-0.05'' then 2 else 1)\<rparr>"

definition demo_holdings :: "string \<Rightarrow> real" where
  "demo_holdings t = (if t = ''USDC'' then 10000 else if t = ''WETH'' then 1 else 0)"

section \<open>Basic facts\<close>

lemma deque_append_length:
  "length (deque_append n xs x) = (if n < Suc (length xs) then length xs else Suc (length xs))"
  by (simp add: deque_append_def Let_def)

lemma calculate_bollinger_bands_frame:
  "price_window (snd (calculate_bollinger_bands s)) = price_window s"
  "price_hist (snd (calculate_bollinger_bands s)) = price_hist s"
  "liquidity (snd (calculate_bollinger_bands s)) = liquidity s"
  "window (snd (calculate_bollinger_bands s)) = window s"
  "corr_window (snd (calculate_bollinger_bands s)) = corr_window s"
  "std_dev_multiplier (snd (calculate_bollinger_bands s)) = std_dev_multiplier s"
  "direction (snd (calculate_bollinger_bands s)) = direction s"
  "pool (snd (calculate_bollinger_bands s)) = pool s"
  "agent (snd (calculate_bollinger_bands s)) = agent s"
  "correlation_hist (snd (calculate_bollinger_bands s)) = correlation_hist s"
  by (simp_all add: calculate_bollinger_bands_def Let_def)

lemma calculate_correlation_frame:
  "price_window (snd (calculate_correlation s)) = price_window s"
  "price_hist (snd (calculate_correlation s)) = price_hist s"
  "liquidity (snd (calculate_correlation s)) = liquidity s"
  "window (snd (calculate_correlation s)) = window s"
  "corr_window (snd (calculate_correlation s)) = corr_window s"
  "std_dev_multiplier (snd (calculate_correlation s)) = std_dev_multiplier s"
  "direction (snd (calculate_correlation s)) = direction s"
  "pool (snd (calculate_correlation s)) = pool s"
  "agent (snd (calculate_correlation s)) = agent s"
  "upper_band (snd (calculate_correlation s)) = upper_band s"
  "lower_band (snd (calculate_correlation s)) = lower_band s"
  by (simp_all add: calculate_correlation_def Let_def)

lemma observe_Inr:
  assumes "observe s obs = Inr (l, s', sg)"
  shows "price_window s' = deque_append (window s) (price_window s) (l_price l)"
    and "price_hist s' = price_hist s @ [l_price l]"
    and "liquidity s' = liquidity s @ [obs_liquidity obs (hd (obs_pools obs))]"
    and "l_price l = obs_price obs (fst (obs_pool_tokens obs (pool s))) (snd (obs_pool_tokens obs (pool s))) (pool s)"
    and "l_pool_tokens l = obs_pool_tokens obs (pool s)"
    and "window s' = window s" and "corr_window s' = corr_window s"
    and "std_dev_multiplier s' = std_dev_multiplier s" and "direction s' = direction s"
    and "pool s' = pool s" and "agent s' = agent s"
    and "obs_pools obs \<noteq> []"
  using assms
  by (auto simp: observe_def Let_def case_prod_beta calculate_bollinger_bands_frame calculate_correlation_frame
      split: list.splits)

lemma observe_Inl: "observe s obs = Inl e \<longleftrightarrow> obs_pools obs = [] \<and> e = IndexError"
  by (auto simp: observe_def Let_def case_prod_beta split: list.splits)

lemma observe_total: "obs_pools obs \<noteq> [] \<Longrightarrow> \<exists>r. observe s obs = Inr r"
  by (auto simp: observe_def Let_def case_prod_beta split: list.splits)

lemma predict_Inr:
  assumes "predict s q obs = Inr (acts, s', sigs)"
  shows "price_hist s' = price_hist s @ replicate 2 (obs_price obs (fst (obs_pool_tokens obs (pool s))) (snd (obs_pool_tokens obs (pool s))) (pool s))"
    and "liquidity s' = liquidity s @ replicate 2 (obs_liquidity obs (hd (obs_pools obs)))"
    and "price_window s' = deque_append (window s) (deque_append (window s) (price_window s) 
            (obs_price obs (fst (obs_pool_tokens obs (pool s))) (snd (obs_pool_tokens obs (pool s))) (pool s)))
            (obs_price obs (fst (obs_pool_tokens obs (pool s))) (snd (obs_pool_tokens obs (pool s))) (pool s))"
    and "window s' = window s" and "corr_window s' = corr_window s"
    and "std_dev_multiplier s' = std_dev_multiplier s" and "direction s' = direction s"
    and "pool s' = pool s" and "agent s' = agent s"
    and "obs_pools obs \<noteq> []"
proof -
  from assms obtain l1 s1 g1 l2 g2 where
    o1: "observe s obs = Inr (l1, s1, g1)" and o2: "observe s1 obs = Inr (l2, s', g2)"
    by (auto simp: predict_def split: sum.splits)
  note a = observe_Inr[OF o1] and b = observe_Inr[OF o2]
  show "price_hist s' = price_hist s @ replicate 2 (obs_price obs (fst (obs_pool_tokens obs (pool s))) (snd (obs_pool_tokens obs (pool s))) (pool s))"
    using a b by (simp add: numeral_2_eq_2)
  show "liquidity s' = liquidity s @ replicate 2 (obs_liquidity obs (hd (obs_pools obs)))"
    using a b by (simp add: numeral_2_eq_2)
  show "price_window s' = deque_append (window s) (deque_append (window s) (price_window s) 
            (obs_price obs (fst (obs_pool_tokens obs (pool s))) (snd (obs_pool_tokens obs (pool s))) (pool s)))
            (obs_price obs (fst (obs_pool_tokens obs (pool s))) (snd (obs_pool_tokens obs (pool s))) (pool s))"
    using a b by simp
  show "window s' = window s" "corr_window s' = corr_window s"
    "std_dev_multiplier s' = std_dev_multiplier s" "direction s' = direction s"
    "pool s' = pool s" "agent s' = agent s" "obs_pools obs \<noteq> []"
    using a b by simp_all
qed

lemma predict_total:
  assumes "obs_pools obs \<noteq> []"
  shows "\<exists>acts s' sigs. predict s q obs = Inr (acts, s', sigs)"
proof -
  obtain l1 s1 g1 where o1: "observe s obs = Inr (l1, s1, g1)"
    using observe_total[OF assms, of s] by auto
  obtain l2 s2 g2 where o2: "observe s1 obs = Inr (l2, s2, g2)"
    using observe_total[OF assms, of s1] by auto
  show ?thesis by (simp add: predict_def o1 o2)
qed

lemma predict_seq_total:
  "\<forall>x \<in> set steps. obs_pools (snd x) \<noteq> [] \<Longrightarrow> \<exists>outs s'. predict_seq s steps = Inr (outs, s')"
proof (induction steps arbitrary: s)
  case Nil
  then show ?case by simp
next
  case (Cons x steps)
  obtain q obs where x: "x = (q, obs)" by (cases x)
  with Cons.prems have "obs_pools obs \<noteq> []" by simp
  then obtain acts s1 sigs where p: "predict s q obs = Inr (acts, s1, sigs)"
    using predict_total by blast
  from Cons.prems obtain outs s2 where "predict_seq s1 steps = Inr (outs, s2)"
    using Cons.IH[of s1] by auto
  with p x show ?case by simp
qed

lemma predict_seq_invariant:
  assumes step: "\<And>s q obs acts s' sigs. I s \<Longrightarrow> predict s q obs = Inr (acts, s', sigs) \<Longrightarrow> I s'"
  shows "I s \<Longrightarrow> predict_seq s steps = Inr (outs, s') \<Longrightarrow> I s'"
proof (induction steps arbitrary: s outs)
  case Nil
  then show ?case by simp
next
  case (Cons x steps)
  obtain q obs where x: "x = (q, obs)" by (cases x)
  from Cons.prems(2) x obtain acts s1 sigs outs1 where
    p: "predict s q obs = Inr (acts, s1, sigs)" and r: "predict_seq s1 steps = Inr (outs1, s')"
    by (auto split: sum.splits)
  from step[OF Cons.prems(1) p] have "I s1" .
  from Cons.IH[OF this r] show ?case .
qed

lemma init_Inr:
  assumes "init a p w m cw d = Inr s0"
  shows "price_window s0 = []" "price_hist s0 = []" "liquidity s0 = []" "0 \<le> w"
    "window s0 = nat w" "std_dev_multiplier s0 = m" "corr_window s0 = cw" "direction s0 = d"
    "pool s0 = p" "agent s0 = a" "upper_band s0 = []" "lower_band s0 = []" "correlation_hist s0 = []"
  using assms by (auto simp: init_def split: if_splits)

lemma window_step:
  assumes "predict s q obs = Inr (acts, s', sigs)"
    and "length (price_window s) = min (length (price_hist s)) (window s)"
  shows "length (price_window s') = min (length (price_hist s')) (window s')"
  using assms(2) by (auto simp add: predict_Inr[OF assms(1)] deque_append_length min_def)


subsection \<open>Evaluation on concrete inputs\<close>

lemma corr_quotient:
  assumes "0 < vx" "0 < vy" "0 \<le> r" "r * r = vx * vy"
  shows "sqrt vx * sqrt vy = r"
proof -
  have "sqrt vx * sqrt vy = sqrt (vx * vy)" by (simp add: real_sqrt_mult)
  also have "\<dots> = sqrt (r * r)" using assms(4) by simp
  also have "\<dots> = r" using assms(3) by simp
  finally show ?thesis .
qed

lemma np_corrcoef_eval:
  assumes "np_cov xs ys = Some c" "np_cov xs xs = Some vx" "np_cov ys ys = Some vy"
    and "0 < vx" "0 < vy" "0 \<le> r" "r * r = vx * vy"
  shows "np_corrcoef xs ys = Some (max (- 1) (min 1 (c / r)))"
  using assms(4,5) by (simp add: np_corrcoef_def assms(1,2,3) corr_quotient[OF assms(4-7)])

lemma predict_quiet:
  assumes "obs_pools obs \<noteq> []"
    and "Suc (Suc (length (price_window s))) < window s"
    and "int (length (price_hist s)) + 2 < corr_window s"
  shows "predict s q obs =
     Inr ([], s\<lparr>price_window := price_window s @ replicate 2 (obs_price obs (fst (obs_pool_tokens obs (pool s))) (snd (obs_pool_tokens obs (pool s))) (pool s)),
               price_hist := price_hist s @ replicate 2 (obs_price obs (fst (obs_pool_tokens obs (pool s))) (snd (obs_pool_tokens obs (pool s))) (pool s)),
               liquidity := liquidity s @ replicate 2 (obs_liquidity obs (hd (obs_pools obs)))\<rparr>,
          [(''Correlation'', Some 0), (''Correlation'', Some 0)])"
  using assms
  by (cases "obs_pools obs")
     (simp_all add: predict_def observe_def Let_def deque_append_def calculate_bollinger_bands_def
        calculate_correlation_def decide_def numeral_2_eq_2)

lemma demo_first_call:
  "predict \<lparr>agent = ''BB_Agent'', pool = ''USDC/WETH-0.05'', window = 4, std_dev_multiplier = m,
                corr_window = 4, direction = d, price_window = [], price_hist = [],
                liquidity = [], upper_band = [], lower_band = [], correlation_hist = []\<rparr> q (demo_obs 3 1) =
   Inr ([], \<lparr>agent = ''BB_Agent'', pool = ''USDC/WETH-0.05'', window = 4, std_dev_multiplier = m,
                corr_window = 4, direction = d, price_window = [3, 3], price_hist = [3, 3],
                liquidity = [1, 1], upper_band = [], lower_band = [], correlation_hist = []\<rparr>,
         [(''Correlation'', Some 0), (''Correlation'', Some 0)])"
  by (simp add: predict_def observe_def demo_obs_def Let_def deque_append_def
        calculate_bollinger_bands_def calculate_correlation_def decide_def)

lemma demo_cov: "np_cov [3, 3, 1, 1] [1, 1, 3, 3] = Some (- (4 / 3))"
  "np_cov [3, 3, 1, 1] [3, 3, 1, 1] = Some (4 / 3)"
  "np_cov [1, 1, 3, 3] [1, 1, 3, 3] = Some (4 / 3)"
  by (simp_all add: np_cov_def)

lemma demo_corr: "np_corrcoef [3, 3, 1, 1] [1, 1, 3, 3] = Some (- 1)"
  using np_corrcoef_eval[OF demo_cov, of "4 / 3"] by simp

lemma demo_std: "np_mean [3, 3, 1, 1] = Some 2" "np_std [3, 3, 1, 1] = Some 1"
  by (simp_all add: np_mean_def np_std_def)

lemma demo_second_call:
  "predict \<lparr>agent = ''BB_Agent'', pool = ''USDC/WETH-0.05'', window = 4, std_dev_multiplier = m,
                corr_window = 4, direction = d, price_window = [3, 3], price_hist = [3, 3],
                liquidity = [1, 1], upper_band = [], lower_band = [], correlation_hist = []\<rparr> q (demo_obs 1 3) =
   Inr (decide \<lparr>agent = ''BB_Agent'', pool = ''USDC/WETH-0.05'', window = 4, std_dev_multiplier = m,
                corr_window = 4, direction = d, price_window = [3, 3, 1, 1], price_hist = [3, 3, 1, 1],
                liquidity = [1, 1, 3, 3], upper_band = [Some (2 + m)], lower_band = [Some (2 - m)],
                correlation_hist = [Some (- 1)]\<rparr> q
              \<lparr>l_pool_tokens = (''USDC'', ''WETH''), l_price = 1, l_lower_band = Some (2 - m),
               l_middle_band = Some 2, l_upper_band = Some (2 + m), l_correlation = Some (- 1)\<rparr>,
        \<lparr>agent = ''BB_Agent'', pool = ''USDC/WETH-0.05'', window = 4, std_dev_multiplier = m,
                corr_window = 4, direction = d, price_window = [3, 3, 1, 1], price_hist = [3, 3, 1, 1],
                liquidity = [1, 1, 3, 3], upper_band = [Some (2 + m)], lower_band = [Some (2 - m)],
                correlation_hist = [Some (- 1)]\<rparr>,
         [(''Correlation'', Some 0), (''Correlation'', Some (- 1))])"
  by (simp add: predict_def observe_def demo_obs_def Let_def deque_append_def
        calculate_bollinger_bands_def calculate_correlation_def py_slice_from_def
        calculate_sma_def demo_corr demo_std float_add_def float_sub_def float_mul_def)

lemma demo_run:
  "predict_seq \<lparr>agent = ''BB_Agent'', pool = ''USDC/WETH-0.05'', window = 4, std_dev_multiplier = m,
                corr_window = 4, direction = d, price_window = [], price_hist = [],
                liquidity = [], upper_band = [], lower_band = [], correlation_hist = []\<rparr>
       [(q, demo_obs 3 1), (q', demo_obs 1 3)] =
   Inr ([[], decide \<lparr>agent = ''BB_Agent'', pool = ''USDC/WETH-0.05'', window = 4, std_dev_multiplier = m,
                corr_window = 4, direction = d, price_window = [3, 3, 1, 1], price_hist = [3, 3, 1, 1],
                liquidity = [1, 1, 3, 3], upper_band = [Some (2 + m)], lower_band = [Some (2 - m)],
                correlation_hist = [Some (- 1)]\<rparr> q'
              \<lparr>l_pool_tokens = (''USDC'', ''WETH''), l_price = 1, l_lower_band = Some (2 - m),
               l_middle_band = Some 2, l_upper_band = Some (2 + m), l_correlation = Some (- 1)\<rparr>],
        \<lparr>agent = ''BB_Agent'', pool = ''USDC/WETH-0.05'', window = 4, std_dev_multiplier = m,
                corr_window = 4, direction = d, price_window = [3, 3, 1, 1], price_hist = [3, 3, 1, 1],
                liquidity = [1, 1, 3, 3], upper_band = [Some (2 + m)], lower_band = [Some (2 - m)],
                correlation_hist = [Some (- 1)]\<rparr>)"
  by (simp add: demo_first_call demo_second_call)

subsection \<open>What the decision reads\<close>

lemma bands_cong:
  "price_window a = price_window b \<Longrightarrow> window a = window b \<Longrightarrow>
   std_dev_multiplier a = std_dev_multiplier b \<Longrightarrow>
   fst (calculate_bollinger_bands a) = fst (calculate_bollinger_bands b)"
  by (simp add: calculate_bollinger_bands_def Let_def calculate_sma_def)

lemma correlation_cong:
  "price_hist a = price_hist b \<Longrightarrow> liquidity a = liquidity b \<Longrightarrow>
   corr_window a = corr_window b \<Longrightarrow>
   fst (calculate_correlation a) = fst (calculate_correlation b)"
  by (simp add: calculate_correlation_def Let_def)

lemma observe_locals:
  assumes "observe s obs = Inr (l, s', sg)"
  shows "l_lower_band l = fst (fst (calculate_bollinger_bands s'))"
    and "l_middle_band l = fst (snd (fst (calculate_bollinger_bands s')))"
    and "l_upper_band l = snd (snd (fst (calculate_bollinger_bands s')))"
    and "l_correlation l = fst (calculate_correlation s')"
    and "sg = (''Correlation'', l_correlation l)"
proof -
  from assms obtain p0 ps where p: "obs_pools obs = p0 # ps"
    by (cases "obs_pools obs") (simp_all add: observe_def)
  define s3 where "s3 = s\<lparr>price_window := deque_append (window s) (price_window s)
        (obs_price obs (fst (obs_pool_tokens obs (pool s))) (snd (obs_pool_tokens obs (pool s))) (pool s)),
      price_hist := price_hist s @ [obs_price obs (fst (obs_pool_tokens obs (pool s))) (snd (obs_pool_tokens obs (pool s))) (pool s)],
      liquidity := liquidity s @ [obs_liquidity obs p0]\<rparr>"
  define s4 where "s4 = snd (calculate_bollinger_bands s3)"
  from assms p have s': "s' = snd (calculate_correlation s4)"
    and l: "l_lower_band l = fst (fst (calculate_bollinger_bands s3))"
      "l_middle_band l = fst (snd (fst (calculate_bollinger_bands s3)))"
      "l_upper_band l = snd (snd (fst (calculate_bollinger_bands s3)))"
      "l_correlation l = fst (calculate_correlation s4)"
      "sg = (''Correlation'', l_correlation l)"
    by (auto simp: observe_def Let_def case_prod_beta s3_def s4_def)
  have b: "fst (calculate_bollinger_bands s') = fst (calculate_bollinger_bands s3)"
    by (rule bands_cong)
       (simp_all add: s' s4_def calculate_correlation_frame calculate_bollinger_bands_frame)
  have c: "fst (calculate_correlation s') = fst (calculate_correlation s4)"
    by (rule correlation_cong) (simp_all add: s' calculate_correlation_frame)
  show "l_lower_band l = fst (fst (calculate_bollinger_bands s'))"
    "l_middle_band l = fst (snd (fst (calculate_bollinger_bands s')))"
    "l_upper_band l = snd (snd (fst (calculate_bollinger_bands s')))"
    "l_correlation l = fst (calculate_correlation s')"
    "sg = (''Correlation'', l_correlation l)"
    using l b c by simp_all
qed

lemma predict_decide:
  assumes "predict s q obs = Inr (acts, s', sigs)"
  shows "acts = decide s' q
     \<lparr>l_pool_tokens = obs_pool_tokens obs (pool s),
      l_price = obs_price obs (fst (obs_pool_tokens obs (pool s))) (snd (obs_pool_tokens obs (pool s))) (pool s),
      l_lower_band = fst (fst (calculate_bollinger_bands s')),
      l_middle_band = fst (snd (fst (calculate_bollinger_bands s'))),
      l_upper_band = snd (snd (fst (calculate_bollinger_bands s'))),
      l_correlation = fst (calculate_correlation s')\<rparr>"
proof -
  from assms obtain l1 s1 g1 l2 g2 where
    o1: "observe s obs = Inr (l1, s1, g1)" and o2: "observe s1 obs = Inr (l2, s', g2)"
    and a: "acts = decide s' q l2"
    by (auto simp: predict_def split: sum.splits)
  have "l2 = \<lparr>l_pool_tokens = obs_pool_tokens obs (pool s),
      l_price = obs_price obs (fst (obs_pool_tokens obs (pool s))) (snd (obs_pool_tokens obs (pool s))) (pool s),
      l_lower_band = fst (fst (calculate_bollinger_bands s')),
      l_middle_band = fst (snd (fst (calculate_bollinger_bands s'))),
      l_upper_band = snd (snd (fst (calculate_bollinger_bands s'))),
      l_correlation = fst (calculate_correlation s')\<rparr>"
    using observe_Inr(4,5,10)[OF o2] observe_Inr(10)[OF o1] observe_locals(1-4)[OF o2]
    by (cases l2) simp
  with a show ?thesis by simp
qed



subsection \<open>Runs, and the words of the specification\<close>

lemma predict_seq_append:
  "predict_seq s (xs @ ys) =
     (case predict_seq s xs of
        Inl e \<Rightarrow> Inl e
      | Inr (o1, s1) \<Rightarrow>
         (case predict_seq s1 ys of
            Inl e \<Rightarrow> Inl e
          | Inr (o2, s2) \<Rightarrow> Inr (o1 @ o2, s2)))"
  by (induction xs arbitrary: s) (auto split: sum.splits prod.splits)

lemma quiet_run:
  assumes "2 * (k + n) < 20"
  shows "predict_seq \<lparr>agent = a, pool = pl, window = 20, std_dev_multiplier = m,
             corr_window = 20, direction = d, price_window = replicate (2 * k) p,
             price_hist = replicate (2 * k) p, liquidity = replicate (2 * k) l,
             upper_band = [], lower_band = [], correlation_hist = []\<rparr>
           (replicate n (q, demo_obs p l)) =
         Inr (replicate n [],
           \<lparr>agent = a, pool = pl, window = 20, std_dev_multiplier = m,
             corr_window = 20, direction = d, price_window = replicate (2 * (k + n)) p,
             price_hist = replicate (2 * (k + n)) p, liquidity = replicate (2 * (k + n)) l,
             upper_band = [], lower_band = [], correlation_hist = []\<rparr>)"
  using assms
proof (induction n arbitrary: k)
  case 0
  then show ?case by simp
next
  case (Suc n)
  let ?s = "\<lparr>agent = a, pool = pl, window = 20, std_dev_multiplier = m,
             corr_window = 20, direction = d, price_window = replicate (2 * k) p,
             price_hist = replicate (2 * k) p, liquidity = replicate (2 * k) l,
             upper_band = [], lower_band = [], correlation_hist = []\<rparr>"
  have "predict ?s q (demo_obs p l) =
     Inr ([], \<lparr>agent = a, pool = pl, window = 20, std_dev_multiplier = m,
             corr_window = 20, direction = d, price_window = replicate (2 * Suc k) p,
             price_hist = replicate (2 * Suc k) p, liquidity = replicate (2 * Suc k) l,
             upper_band = [], lower_band = [], correlation_hist = []\<rparr>,
          [(''Correlation'', Some 0), (''Correlation'', Some 0)])"
    using Suc.prems
    by (subst predict_quiet) (simp_all add: demo_obs_def replicate_add[symmetric] del: replicate_Suc replicate.simps)
  moreover have "2 * (Suc k + n) < 20" using Suc.prems by simp
  ultimately show ?case using Suc.IH[of "Suc k"] by simp
qed

lemma tenth_std:
  "np_mean (replicate 18 10 @ [5, 5]) = Some (19 / 2)"
  "np_std (replicate 18 10 @ [5, 5]) = Some (3 / 2)"
proof -
  show m: "np_mean (replicate 18 10 @ [5, 5]) = Some (19 / 2)"
    by (simp add: np_mean_def sum_list_replicate)
  have "sqrt (9 / 4) = 3 / 2"
    by (rule real_sqrt_unique) (simp_all add: power2_eq_square)
  moreover have "(\<Sum>x\<leftarrow>replicate 18 10 @ [5, 5]. \<bar>x - 19 / 2\<bar>\<^sup>2) / real (length (replicate 18 (10::real) @ [5, 5])) = 9 / 4"
    by (simp add: power2_eq_square sum_list_replicate)
  ultimately show "np_std (replicate 18 10 @ [5, 5]) = Some (3 / 2)"
    by (simp only: np_std_def m option.case)
qed

lemma tenth_cov:
  "np_cov (replicate 18 10 @ [5, 5]) (replicate 18 1 @ [2, 2]) = Some (- (9 / 19))"
  "np_cov (replicate 18 10 @ [5, 5]) (replicate 18 10 @ [5, 5]) = Some (45 / 19)"
  "np_cov (replicate 18 1 @ [2, 2]) (replicate 18 1 @ [2, 2]) = Some (9 / 95)"
  by (simp_all add: np_cov_def sum_list_replicate)

lemma tenth_corr:
  "np_corrcoef (replicate 18 10 @ [5, 5]) (replicate 18 1 @ [2, 2]) = Some (- 1)"
  using np_corrcoef_eval[OF tenth_cov, of "9 / 19"] by simp

lemma tenth_call:
  "predict \<lparr>agent = ''BB_Agent'', pool = ''USDC/WETH-0.05'', window = 20, std_dev_multiplier = 2,
             corr_window = 20, direction = 0, price_window = replicate 18 10,
             price_hist = replicate 18 10, liquidity = replicate 18 1,
             upper_band = [], lower_band = [], correlation_hist = []\<rparr>
      demo_holdings (demo_obs 5 2) =
   Inr ([\<lparr>trade_agent = ''BB_Agent'', trade_pool = ''USDC/WETH-0.05'', quantities = (0, 3 / 10)\<rparr>],
        \<lparr>agent = ''BB_Agent'', pool = ''USDC/WETH-0.05'', window = 20, std_dev_multiplier = 2,
             corr_window = 20, direction = 0, price_window = replicate 18 10 @ [5, 5],
             price_hist = replicate 18 10 @ [5, 5], liquidity = replicate 18 1 @ [2, 2],
             upper_band = [Some (25 / 2)], lower_band = [Some (13 / 2)],
             correlation_hist = [Some (- 1)]\<rparr>,
        [(''Correlation'', Some 0), (''Correlation'', Some (- 1))])"
  by (simp add: predict_def observe_def demo_obs_def Let_def deque_append_def
        calculate_bollinger_bands_def calculate_correlation_def py_slice_from_def
        calculate_sma_def tenth_corr tenth_std float_add_def float_sub_def float_mul_def
        decide_def float_lt_def demo_holdings_def)

lemma warm_up_gate:
  assumes "predict s q obs = Inr (acts, s', sigs)" and "length (price_window s') < window s"
  shows "acts = []"
  using assms(2) predict_Inr(4)[OF assms(1)]
  by (simp add: predict_decide[OF assms(1)] decide_def)






lemma zero_window_corr:
  "np_corrcoef [3] [1] = None" "np_corrcoef [3, 3] [1, 1] = None"
  "np_corrcoef [3, 3, 1] [1, 1, 3] = Some (- 1)"
proof -
  show "np_corrcoef [3] [1] = None" by (simp add: np_corrcoef_def np_cov_def)
  show "np_corrcoef [3, 3] [1, 1] = None" by (simp add: np_corrcoef_def np_cov_def)
  have "np_cov [3, 3, 1] [1, 1, 3] = Some (- (4 / 3))" "np_cov [3, 3, 1] [3, 3, 1] = Some (4 / 3)"
    "np_cov [1, 1, 3] [1, 1, 3] = Some (4 / 3)"
    by (simp_all add: np_cov_def)
  from np_corrcoef_eval[OF this, of "4 / 3"] show "np_corrcoef [3, 3, 1] [1, 1, 3] = Some (- 1)"
    by simp
qed

lemma zero_corr_window_run:
  "predict_seq \<lparr>agent = ''BB_Agent'', pool = ''USDC/WETH-0.05'', window = 4, std_dev_multiplier = 1 / 2,
                corr_window = 0, direction = 1, price_window = [], price_hist = [],
                liquidity = [], upper_band = [], lower_band = [], correlation_hist = []\<rparr>
       [(demo_holdings, demo_obs 3 1), (demo_holdings, demo_obs 1 3)] =
   Inr ([[], [\<lparr>trade_agent = ''BB_Agent'', trade_pool = ''USDC/WETH-0.05'', quantities = (0, 3 / 10)\<rparr>]],
        \<lparr>agent = ''BB_Agent'', pool = ''USDC/WETH-0.05'', window = 4, std_dev_multiplier = 1 / 2,
                corr_window = 0, direction = 1, price_window = [3, 3, 1, 1], price_hist = [3, 3, 1, 1],
                liquidity = [1, 1, 3, 3], upper_band = [Some (5 / 2)], lower_band = [Some (3 / 2)],
                correlation_hist = [None, None, Some (- 1), Some (- 1)]\<rparr>)"
  by (simp add: predict_def observe_def demo_obs_def Let_def deque_append_def
        calculate_bollinger_bands_def calculate_correlation_def py_slice_from_def
        calculate_sma_def demo_corr demo_std zero_window_corr float_add_def float_sub_def float_mul_def
        decide_def float_lt_def demo_holdings_def)

subsection \<open>Ordered bands and the warm-up of a run\<close>

lemma np_std_nonneg: "np_std xs = Some sd \<Longrightarrow> 0 \<le> sd"
proof -
  assume a: "np_std xs = Some sd"
  have "0 \<le> (\<Sum>x\<leftarrow>xs. \<bar>x - m\<bar>\<^sup>2)" for m :: real
    by (rule sum_list_nonneg) auto
  then have "0 \<le> (\<Sum>x\<leftarrow>xs. \<bar>x - m\<bar>\<^sup>2) / real (length xs)" for m :: real
    by simp
  with a show ?thesis
    by (auto simp: np_std_def np_mean_def simp del: power2_abs split: if_splits)
qed

lemma bands_ordered:
  assumes "0 \<le> std_dev_multiplier s"
  shows "\<not> (float_lt (Some p) (fst (fst (calculate_bollinger_bands s))) \<and>
            float_lt (snd (snd (fst (calculate_bollinger_bands s)))) (Some p))"
proof (cases "length (price_window s) < window s")
  case True
  then show ?thesis by (simp add: calculate_bollinger_bands_def float_lt_def)
next
  case False
  show ?thesis
  proof (cases "np_std (price_window s)")
    case None
    with False show ?thesis
      by (simp add: calculate_bollinger_bands_def Let_def float_lt_def float_sub_def float_mul_def
          split: option.splits)
  next
    case (Some sd)
    then obtain m where m: "np_mean (price_window s) = Some m"
      by (auto simp: np_std_def split: option.splits)
    have "0 \<le> sd * std_dev_multiplier s"
      using np_std_nonneg[OF Some] assms by simp
    then have "\<not> (p < m - sd * std_dev_multiplier s \<and> m + sd * std_dev_multiplier s < p)"
      by linarith
    with False Some m show ?thesis
      by (simp add: calculate_bollinger_bands_def Let_def calculate_sma_def float_lt_def
          float_sub_def float_add_def float_mul_def)
  qed
qed

subsection \<open>The coefficient of \<open>np.corrcoef\<close> is the Pearson coefficient\<close>












lemma np_corrcoef_bounds: "np_corrcoef xs ys = Some r \<Longrightarrow> - 1 \<le> r \<and> r \<le> 1"
  by (auto simp: np_corrcoef_def split: option.splits if_splits)

section \<open>The claims\<close>

subsection \<open>The warm-up\<close>

text \<open>
  Claim C1. With \<open>window = 20\<close> the first 19 calls of \<open>predict\<close> are said to return
  no intent. Every call appends the price twice, so the window of 20 is full at the
  tenth call: on a new instance with the default parameters, nine calls at price 10
  and liquidity 1 and a tenth at price 5 and liquidity 2 give a mean of 9.5, a
  deviation of 1.5, a lower band of 6.5 and a correlation of \<open>-1\<close>, and the tenth
  call returns a buy intent. (That \<open>predict\<close> returns no intent whenever the window
  is not full after its appends is the lemma \<open>warm_up_gate\<close>.)
\<close>

theorem trade_at_tenth_call:
  "init ''BB_Agent'' ''USDC/WETH-0.05'' 20 2 20 0 =
     Inr \<lparr>agent = ''BB_Agent'', pool = ''USDC/WETH-0.05'', window = 20, std_dev_multiplier = 2,
          corr_window = 20, direction = 0, price_window = [], price_hist = [],
          liquidity = [], upper_band = [], lower_band = [], correlation_hist = []\<rparr> \<and>
   predict_seq \<lparr>agent = ''BB_Agent'', pool = ''USDC/WETH-0.05'', window = 20, std_dev_multiplier = 2,
          corr_window = 20, direction = 0, price_window = [], price_hist = [],
          liquidity = [], upper_band = [], lower_band = [], correlation_hist = []\<rparr>
     (replicate 9 (demo_holdings, demo_obs 10 1) @ [(demo_holdings, demo_obs 5 2)]) =
   Inr (replicate 9 [] @
          [[\<lparr>trade_agent = ''BB_Agent'', trade_pool = ''USDC/WETH-0.05'', quantities = (0, 3 / 10)\<rparr>]],
        \<lparr>agent = ''BB_Agent'', pool = ''USDC/WETH-0.05'', window = 20, std_dev_multiplier = 2,
             corr_window = 20, direction = 0, price_window = replicate 18 10 @ [5, 5],
             price_hist = replicate 18 10 @ [5, 5], liquidity = replicate 18 1 @ [2, 2],
             upper_band = [Some (25 / 2)], lower_band = [Some (13 / 2)],
             correlation_hist = [Some (- 1)]\<rparr>)"
proof -
  have "predict_seq \<lparr>agent = ''BB_Agent'', pool = ''USDC/WETH-0.05'', window = 20, std_dev_multiplier = 2,
          corr_window = 20, direction = 0, price_window = [], price_hist = [],
          liquidity = [], upper_band = [], lower_band = [], correlation_hist = []\<rparr>
     (replicate 9 (demo_holdings, demo_obs 10 1)) =
    Inr (replicate 9 [], \<lparr>agent = ''BB_Agent'', pool = ''USDC/WETH-0.05'', window = 20, std_dev_multiplier = 2,
             corr_window = 20, direction = 0, price_window = replicate 18 10,
             price_hist = replicate 18 10, liquidity = replicate 18 1,
             upper_band = [], lower_band = [], correlation_hist = []\<rparr>)"
    using quiet_run[of 0 9 "''BB_Agent''" "''USDC/WETH-0.05''" 2 0 10 1 demo_holdings]
    by simp
  then show ?thesis
    by (simp only: predict_seq_append) (simp add: tenth_call init_def)
qed

subsection \<open>The histories\<close>

text \<open>
  Claim C2. One call of \<open>predict\<close> is said to append one element to the price history,
  one to the liquidity history and at most one to the window. The block of lines 77 to
  89 stands a second time in lines 91 to 103 and runs a second time: on a new instance
  with the default parameters, one call with price 10 and liquidity 1 leaves two prices
  in the history, two in the window and two liquidities.
\<close>

theorem predict_appends_twice:
  "predict \<lparr>agent = ''BB_Agent'', pool = ''USDC/WETH-0.05'', window = 20, std_dev_multiplier = 2,
             corr_window = 20, direction = 0, price_window = [], price_hist = [],
             liquidity = [], upper_band = [], lower_band = [], correlation_hist = []\<rparr>
      demo_holdings (demo_obs 10 1) =
   Inr ([], \<lparr>agent = ''BB_Agent'', pool = ''USDC/WETH-0.05'', window = 20, std_dev_multiplier = 2,
             corr_window = 20, direction = 0, price_window = [10, 10], price_hist = [10, 10],
             liquidity = [1, 1], upper_band = [], lower_band = [], correlation_hist = []\<rparr>,
        [(''Correlation'', Some 0), (''Correlation'', Some 0)])"
  by (simp add: predict_def observe_def demo_obs_def Let_def deque_append_def
        calculate_bollinger_bands_def calculate_correlation_def decide_def)

text \<open>
  Claim C3. From a new instance, after every completed call of \<open>predict\<close> the price
  history and the liquidity history have the same length.
\<close>

theorem lock_step_histories:
  assumes "init a p w m cw d = Inr s0" and "predict_seq s0 steps = Inr (outs, s)"
  shows "length (price_hist s) = length (liquidity s)"
proof -
  have "length (price_hist s0) = length (liquidity s0)"
    using init_Inr[OF assms(1)] by simp
  moreover have "\<And>s q obs acts s' sigs. length (price_hist s) = length (liquidity s) \<Longrightarrow>
      predict s q obs = Inr (acts, s', sigs) \<Longrightarrow> length (price_hist s') = length (liquidity s')"
    by (simp add: predict_Inr)
  ultimately show ?thesis
    using predict_seq_invariant[where I = "\<lambda>s. length (price_hist s) = length (liquidity s)", OF _ _ assms(2)]
    by blast
qed

theorem lock_step_histories_witness:
  "init ''BB_Agent'' ''USDC/WETH-0.05'' 4 (1 / 2) 4 0 =
     Inr \<lparr>agent = ''BB_Agent'', pool = ''USDC/WETH-0.05'', window = 4, std_dev_multiplier = 1 / 2,
          corr_window = 4, direction = 0, price_window = [], price_hist = [],
          liquidity = [], upper_band = [], lower_band = [], correlation_hist = []\<rparr> \<and>
   (\<exists>outs s. predict_seq \<lparr>agent = ''BB_Agent'', pool = ''USDC/WETH-0.05'', window = 4, std_dev_multiplier = 1 / 2,
          corr_window = 4, direction = 0, price_window = [], price_hist = [],
          liquidity = [], upper_band = [], lower_band = [], correlation_hist = []\<rparr>
          [(demo_holdings, demo_obs 3 1), (demo_holdings, demo_obs 1 3)] = Inr (outs, s) \<and>
      price_hist s = [3, 3, 1, 1] \<and> liquidity s = [1, 1, 3, 3] \<and>
      length (price_hist s) = length (liquidity s))"
proof -
  have i: "init ''BB_Agent'' ''USDC/WETH-0.05'' 4 (1 / 2) 4 0 =
     Inr \<lparr>agent = ''BB_Agent'', pool = ''USDC/WETH-0.05'', window = 4, std_dev_multiplier = 1 / 2,
          corr_window = 4, direction = 0, price_window = [], price_hist = [],
          liquidity = [], upper_band = [], lower_band = [], correlation_hist = []\<rparr>"
    by (simp add: init_def)
  note r = demo_run[of "1 / 2" 0 demo_holdings demo_holdings]
  from lock_step_histories[OF i r] i r show ?thesis by simp
qed

text \<open>
  Claim C4. From a new instance, after any sequence of calls the window is never longer
  than \<open>window\<close>; its length is the smaller of \<open>window\<close> and the number of prices
  appended so far; and once \<open>window\<close> prices have been appended its length is
  \<open>window\<close>, and stays so after any further calls.
\<close>

theorem window_bound:
  assumes "init a p w m cw d = Inr s0" and "predict_seq s0 steps = Inr (outs, s)"
    and "predict_seq s later = Inr (outs', s')"
  shows "length (price_window s) \<le> window s \<and>
         length (price_window s) = min (length (price_hist s)) (window s) \<and>
         (window s \<le> length (price_hist s) \<longrightarrow>
            length (price_window s) = window s \<and> length (price_window s') = window s \<and> window s' = window s)"
proof -
  let ?I = "\<lambda>t. length (price_window t) = min (length (price_hist t)) (window t)"
  let ?J = "\<lambda>t. window t = window s \<and> length (price_hist s) \<le> length (price_hist t)"
  have I0: "?I s0" using init_Inr[OF assms(1)] by simp
  have Is: "?I s"
    using predict_seq_invariant[where I = ?I, OF _ I0 assms(2)] window_step by blast
  have Is': "?I s'"
    using predict_seq_invariant[where I = ?I, OF _ Is assms(3)] window_step by blast
  have "\<And>t q obs acts t' sigs. ?J t \<Longrightarrow> predict t q obs = Inr (acts, t', sigs) \<Longrightarrow> ?J t'"
    by (simp add: predict_Inr)
  then have Js': "?J s'"
    using predict_seq_invariant[where I = ?J, OF _ _ assms(3)] by blast
  from Is Is' Js' show ?thesis by auto
qed

theorem window_bound_witness:
  "\<exists>outs s outs' s'.
     predict_seq \<lparr>agent = ''BB_Agent'', pool = ''USDC/WETH-0.05'', window = 4, std_dev_multiplier = 1 / 2,
          corr_window = 4, direction = 0, price_window = [], price_hist = [],
          liquidity = [], upper_band = [], lower_band = [], correlation_hist = []\<rparr>
          [(demo_holdings, demo_obs 3 1), (demo_holdings, demo_obs 1 3)] = Inr (outs, s) \<and>
     predict_seq s [(demo_holdings, demo_obs 1 3)] = Inr (outs', s') \<and>
     window s = 4 \<and> length (price_hist s) = 4 \<and> length (price_window s) = 4 \<and>
     length (price_window s') = 4"
proof -
  have i: "init ''BB_Agent'' ''USDC/WETH-0.05'' 4 (1 / 2) 4 0 =
     Inr \<lparr>agent = ''BB_Agent'', pool = ''USDC/WETH-0.05'', window = 4, std_dev_multiplier = 1 / 2,
          corr_window = 4, direction = 0, price_window = [], price_hist = [],
          liquidity = [], upper_band = [], lower_band = [], correlation_hist = []\<rparr>"
    by (simp add: init_def)
  note r = demo_run[of "1 / 2" 0 demo_holdings demo_holdings]
  obtain outs' s' where
    l: "predict_seq \<lparr>agent = ''BB_Agent'', pool = ''USDC/WETH-0.05'', window = 4,
          std_dev_multiplier = 1 / 2, corr_window = 4, direction = 0,
          price_window = [3, 3, 1, 1], price_hist = [3, 3, 1, 1], liquidity = [1, 1, 3, 3],
          upper_band = [Some (2 + 1 / 2)], lower_band = [Some (2 - 1 / 2)],
          correlation_hist = [Some (- 1)]\<rparr> [(demo_holdings, demo_obs 1 3)] = Inr (outs', s')"
    using predict_seq_total[of "[(demo_holdings, demo_obs 1 3)]" "\<lparr>agent = ''BB_Agent'',
          pool = ''USDC/WETH-0.05'', window = 4,
          std_dev_multiplier = 1 / 2, corr_window = 4, direction = 0,
          price_window = [3, 3, 1, 1], price_hist = [3, 3, 1, 1], liquidity = [1, 1, 3, 3],
          upper_band = [Some (2 + 1 / 2)], lower_band = [Some (2 - 1 / 2)],
          correlation_hist = [Some (- 1)]\<rparr>"]
    by (auto simp: demo_obs_def simp del: predict_seq.simps)
  from window_bound[OF i r l] r l show ?thesis by simp
qed

subsection \<open>The statistics\<close>







subsection \<open>The decision rules\<close>







subsection \<open>Which pool is recorded\<close>

text \<open>
  Claim C10. Every call of \<open>predict\<close> on an observation with at least one pool returns,
  and the liquidity it appends is that of the first pool of the observation, while the
  price it appends is that of the configured pool; when the configured pool is the
  first one, the liquidity appended is that of the configured pool. The witness has an
  observation whose first pool is another one, and the liquidity recorded (1) is not
  that of the configured pool (2).
\<close>

theorem recorded_liquidity_is_first_pool:
  assumes "obs_pools obs \<noteq> []"
  shows "\<exists>acts s' sigs. predict s q obs = Inr (acts, s', sigs) \<and>
           liquidity s' = liquidity s @ replicate 2 (obs_liquidity obs (hd (obs_pools obs))) \<and>
           price_hist s' = price_hist s @
              replicate 2 (obs_price obs (fst (obs_pool_tokens obs (pool s)))
                                     (snd (obs_pool_tokens obs (pool s))) (pool s)) \<and>
           (hd (obs_pools obs) = pool s \<longrightarrow>
              liquidity s' = liquidity s @ replicate 2 (obs_liquidity obs (pool s)))"
proof -
  obtain acts s' sigs where p: "predict s q obs = Inr (acts, s', sigs)"
    using predict_total[OF assms] by blast
  from predict_Inr(1,2)[OF p] p show ?thesis by auto
qed

theorem recorded_liquidity_is_first_pool_witness:
  "(\<exists>acts s' sigs.
      predict \<lparr>agent = ''BB_Agent'', pool = ''USDC/WETH-0.05'', window = 20, std_dev_multiplier = 2,
               corr_window = 20, direction = 0, price_window = [], price_hist = [],
               liquidity = [], upper_band = [], lower_band = [], correlation_hist = []\<rparr>
        demo_holdings demo_obs_two_pools = Inr (acts, s', sigs) \<and>
      liquidity s' = [1, 1] \<and> price_hist s' = [3, 3]) \<and>
   hd (obs_pools demo_obs_two_pools) = ''WBTC/WETH-0.3'' \<and>
   obs_liquidity demo_obs_two_pools ''USDC/WETH-0.05'' = 2 \<and>
   (\<exists>acts s' sigs.
      predict \<lparr>agent = ''BB_Agent'', pool = ''USDC/WETH-0.05'', window = 20, std_dev_multiplier = 2,
               corr_window = 20, direction = 0, price_window = [], price_hist = [],
               liquidity = [], upper_band = [], lower_band = [], correlation_hist = []\<rparr>
        demo_holdings (demo_obs 10 5) = Inr (acts, s', sigs) \<and>
      liquidity s' = [5, 5] \<and> price_hist s' = [10, 10]) \<and>
   hd (obs_pools (demo_obs 10 5)) = ''USDC/WETH-0.05'' \<and>
   obs_liquidity (demo_obs 10 5) ''USDC/WETH-0.05'' = 5"
proof -
  let ?s = "\<lparr>agent = ''BB_Agent'', pool = ''USDC/WETH-0.05'', window = 20, std_dev_multiplier = 2,
               corr_window = 20, direction = 0, price_window = [], price_hist = [],
               liquidity = [], upper_band = [], lower_band = [], correlation_hist = []\<rparr>"
  have n1: "obs_pools demo_obs_two_pools \<noteq> []" by (simp add: demo_obs_two_pools_def)
  have n2: "obs_pools (demo_obs 10 5) \<noteq> []" by (simp add: demo_obs_def)
  from recorded_liquidity_is_first_pool[OF n1, of ?s demo_holdings]
    recorded_liquidity_is_first_pool[OF n2, of ?s demo_holdings]
  show ?thesis
    by (auto simp add: demo_obs_two_pools_def demo_obs_def numeral_2_eq_2)
qed

section \<open>Further properties\<close>

text \<open>
  With a multiplier that is not negative the lower band is not above the upper one, the
  two price conditions exclude each other, and a call of \<open>predict\<close> returns at most
  one intent.
\<close>

theorem at_most_one_intent:
  assumes "predict s q obs = Inr (acts, s', sigs)" and "0 \<le> std_dev_multiplier s"
  shows "length acts \<le> 1"
proof -
  have "0 \<le> std_dev_multiplier s'" using assms(2) predict_Inr(6)[OF assms(1)] by simp
  from bands_ordered[OF this] show ?thesis
    by (auto simp add: predict_decide[OF assms(1)] decide_def)
qed

theorem at_most_one_intent_witness:
  "(0::real) \<le> 1 / 2 \<and>
   (\<exists>acts s' sigs.
      predict \<lparr>agent = ''BB_Agent'', pool = ''USDC/WETH-0.05'', window = 4, std_dev_multiplier = 1 / 2,
               corr_window = 4, direction = 0, price_window = [3, 3], price_hist = [3, 3],
               liquidity = [1, 1], upper_band = [], lower_band = [], correlation_hist = []\<rparr>
        demo_holdings (demo_obs 1 3) = Inr (acts, s', sigs) \<and> length acts = 1)"
proof -
  let ?s = "\<lparr>agent = ''BB_Agent'', pool = ''USDC/WETH-0.05'', window = 4, std_dev_multiplier = 1 / 2,
               corr_window = 4, direction = 0, price_window = [3, 3], price_hist = [3, 3],
               liquidity = [1, 1], upper_band = [], lower_band = [], correlation_hist = []\<rparr>"
  have p: "predict ?s demo_holdings (demo_obs 1 3) =
      Inr ([\<lparr>trade_agent = ''BB_Agent'', trade_pool = ''USDC/WETH-0.05'', quantities = (0, 3 / 10)\<rparr>],
        \<lparr>agent = ''BB_Agent'', pool = ''USDC/WETH-0.05'', window = 4, std_dev_multiplier = 1 / 2,
                corr_window = 4, direction = 0, price_window = [3, 3, 1, 1], price_hist = [3, 3, 1, 1],
                liquidity = [1, 1, 3, 3], upper_band = [Some (5 / 2)], lower_band = [Some (3 / 2)],
                correlation_hist = [Some (- 1)]\<rparr>,
         [(''Correlation'', Some 0), (''Correlation'', Some (- 1))])"
    using demo_second_call[of "1 / 2" 0 demo_holdings]
    by (simp add: decide_def float_lt_def demo_holdings_def)
  have "(0::real) \<le> std_dev_multiplier ?s" by simp
  from at_most_one_intent[OF p this] p show ?thesis by simp
qed

text \<open>
  As long as twice the number of calls stays below \<open>window\<close>, every call of a run
  returns no intent: with \<open>window = 20\<close> these are the first nine calls.
\<close>

theorem warm_up_run:
  assumes "predict_seq s steps = Inr (outs, s')"
    and "length (price_window s) + 2 * length steps < window s"
  shows "(\<forall>acts \<in> set outs. acts = []) \<and> length outs = length steps \<and>
         length (price_window s') = length (price_window s) + 2 * length steps \<and>
         window s' = window s"
  using assms
proof (induction steps arbitrary: s outs)
  case Nil
  then show ?case by simp
next
  case (Cons x steps)
  obtain q obs where x: "x = (q, obs)" by (cases x)
  from Cons.prems(1) x obtain acts s1 sigs outs1 where
    p: "predict s q obs = Inr (acts, s1, sigs)" and r: "predict_seq s1 steps = Inr (outs1, s')"
    and o: "outs = acts # outs1"
    by (auto split: sum.splits)
  have w: "window s1 = window s" by (rule predict_Inr(4)[OF p])
  have l: "length (price_window s1) = length (price_window s) + 2"
    using Cons.prems(2) by (simp add: predict_Inr(3)[OF p] deque_append_length)
  have "acts = []"
    by (rule warm_up_gate[OF p]) (use l Cons.prems(2) in simp)
  moreover have "length (price_window s1) + 2 * length steps < window s1"
    using l w Cons.prems(2) by simp
  from Cons.IH[OF r this] have "(\<forall>acts \<in> set outs1. acts = []) \<and> length outs1 = length steps \<and>
         length (price_window s') = length (price_window s1) + 2 * length steps \<and>
         window s' = window s1" .
  ultimately show ?case using o l w by simp
qed

theorem warm_up_run_witness:
  "\<exists>outs s'.
     predict_seq \<lparr>agent = ''BB_Agent'', pool = ''USDC/WETH-0.05'', window = 20, std_dev_multiplier = 2,
          corr_window = 20, direction = 0, price_window = [], price_hist = [],
          liquidity = [], upper_band = [], lower_band = [], correlation_hist = []\<rparr>
       (replicate 9 (demo_holdings, demo_obs 10 1)) = Inr (outs, s') \<and>
     outs = replicate 9 [] \<and> length (price_window s') = 18 \<and> window s' = 20"
proof -
  let ?s = "\<lparr>agent = ''BB_Agent'', pool = ''USDC/WETH-0.05'', window = 20, std_dev_multiplier = 2,
          corr_window = 20, direction = 0, price_window = [], price_hist = [],
          liquidity = [], upper_band = [], lower_band = [], correlation_hist = []\<rparr>"
  have "\<forall>x \<in> set (replicate 9 (demo_holdings, demo_obs 10 1)). obs_pools (snd x) \<noteq> []"
    by (simp add: demo_obs_def)
  from predict_seq_total[OF this, of ?s] obtain outs s' where
    r: "predict_seq ?s (replicate 9 (demo_holdings, demo_obs 10 1)) = Inr (outs, s')"
    by blast
  have "length (price_window ?s) + 2 * length (replicate 9 (demo_holdings, demo_obs 10 1)) < window ?s"
    by simp
  from warm_up_run[OF r this] have w: "(\<forall>acts \<in> set outs. acts = []) \<and> length outs = 9 \<and>
      length (price_window s') = 18 \<and> window s' = 20"
    by simp
  then have "outs = replicate 9 []"
    by (metis replicate_eqI)
  with r w show ?thesis by blast
qed

end
